theory Spec2Isabelle
  imports Complex_Main
begin

section \<open>Book-exchange request service: data model\<close>

text \<open>
  The service keeps two Mongoose collections, \<open>Request\<close> and \<open>Transaction\<close>, and
  exposes them through two Express routers. The handlers are modelled as functions from
  the parsed request (path parameter, JSON body), the clock reading and the store to a
  reply and the new store. All handlers sit behind \<open>authenticateToken\<close>; the model
  starts after that middleware has called \<open>next()\<close>.

  Body fields are typed as the schemas declare them: an absent field is \<open>None\<close>, a
  string field is \<open>Some s\<close>, the numeric \<open>Duration\<close> is \<open>Some d\<close>. Bodies that
  carry \<open>null\<close> or a value of another JSON type in a field are outside the model. The
  \<open>status\<close> of \<open>PUT /requests/:id\<close> is \<open>None\<close> when it is absent or not a string:
  \<open>Array.prototype.includes\<close> compares without conversion.
\<close>

text \<open>
  A BSON ObjectId is read as the number its twelve bytes denote, a JavaScript \<open>Date\<close>
  as its milliseconds.
\<close>

type_synonym oid = nat

type_synonym date = nat

record request =
  r_id :: oid
  r_RequestID :: oid
  r_RequestedBy :: string
  r_RequestedTo :: string
  r_BookID :: string
  r_RequestDate :: date
  r_Status :: string
  r_DeliveryMethod :: string
  r_Duration :: real
  r_NegotiatedTerms :: string
  r_createdAt :: date
  r_updatedAt :: date

record transaction =
  t_id :: oid
  t_TransactionID :: oid
  t_RequestID :: oid
  t_OwnerID :: string
  t_BooKID :: string
  t_Status :: string
  t_TransactionDate :: date
  t_BookReturnedDate :: "date option"

text \<open>
  The store: the two collections in insertion order, and the state of the ObjectId
  generator (every \<open>new mongoose.Types.ObjectId()\<close> draws the next value).
\<close>

record store =
  requests :: "request list"
  transactions :: "transaction list"
  oid_counter :: nat

definition empty_store :: store where
  "empty_store = \<lparr>requests = [], transactions = [], oid_counter = 0\<rparr>"

text \<open>
  Errors are values. \<open>MissingFields\<close> and \<open>InvalidStatus\<close> are the two checks the
  request router makes itself, \<open>ValidationError\<close> and \<open>CastError\<close> are thrown by
  Mongoose and caught by the handler's \<open>catch\<close>, \<open>NotFound\<close> is the handler's answer
  to a \<open>null\<close> query result. A reply carries the HTTP status the handler sets.
\<close>

datatype error = MissingFields | InvalidStatus | ValidationError | CastError | NotFound

datatype 'a reply = Json nat 'a | Err nat error

section \<open>The Mongoose layer\<close>

text \<open>
  Mongoose is a library the repository uses, not part of it. Its behaviour is written out
  here as far as the two schemas and the handlers rely on it: casting of ObjectIds,
  the \<open>required\<close> and \<open>enum\<close> validators, defaults, strict mode, \<open>save\<close> and the
  \<open>findById...\<close> queries.
\<close>

subsection \<open>ObjectId strings\<close>

definition is_hex :: "char \<Rightarrow> bool" where
  "is_hex c = (let n = (of_char c :: nat) in
     (48 \<le> n \<and> n \<le> 57) \<or> (65 \<le> n \<and> n \<le> 70) \<or> (97 \<le> n \<and> n \<le> 102))"

definition hex_value :: "char \<Rightarrow> nat" where
  "hex_value c = (let n = (of_char c :: nat) in
     if n \<le> 57 then n - 48 else if n \<le> 70 then n - 55 else n - 87)"

text \<open>
  Casting a string to an ObjectId, as the driver does for \<open>findById...\<close> and for a
  path of type ObjectId: a string of 24 hexadecimal digits, or a string of 12 bytes;
  any other string raises a CastError. Strings are byte strings here.
\<close>

definition castObjectId :: "string \<Rightarrow> oid option" where
  "castObjectId s =
     (if length s = 24 \<and> list_all is_hex s
        then Some (foldl (\<lambda>a c. 16 * a + hex_value c) 0 s)
      else if length s = 12
        then Some (foldl (\<lambda>a c. 256 * a + of_char c) 0 s)
      else None)"

definition hex_digit :: "nat \<Rightarrow> char" where
  "hex_digit d = ''0123456789abcdef'' ! (d mod 16)"

definition toHexString :: "oid \<Rightarrow> string" where
  "toHexString n = map (\<lambda>i. hex_digit (n div 16 ^ (23 - i))) [0..<24]"

subsection \<open>Schema validators\<close>

text \<open>
  \<open>required: true\<close> on a String path rejects \<open>undefined\<close>, \<open>null\<close> and the empty
  string; on any other path it rejects \<open>undefined\<close> and \<open>null\<close>. An \<open>enum\<close>
  validator accepts \<open>undefined\<close> and the listed values. A \<open>default\<close> is applied
  where the value is \<open>undefined\<close>.
\<close>

definition required_String :: "string option \<Rightarrow> bool" where
  "required_String v = (case v of None \<Rightarrow> False | Some s \<Rightarrow> s \<noteq> [])"

definition required_value :: "'a option \<Rightarrow> bool" where
  "required_value v = (v \<noteq> None)"

definition enum_validator :: "string list \<Rightarrow> string option \<Rightarrow> bool" where
  "enum_validator values v = (case v of None \<Rightarrow> True | Some s \<Rightarrow> s \<in> set values)"

definition with_default :: "'a \<Rightarrow> 'a option \<Rightarrow> 'a" where
  "with_default d v = (case v of None \<Rightarrow> d | Some x \<Rightarrow> x)"

text \<open>
  \<open>findOneAndUpdate\<close> and \<open>findOneAndDelete\<close> touch the first matching document only.
\<close>

fun update_first :: "('a \<Rightarrow> bool) \<Rightarrow> ('a \<Rightarrow> 'a) \<Rightarrow> 'a list \<Rightarrow> 'a list" where
  "update_first P f [] = []"
| "update_first P f (x # xs) = (if P x then f x # xs else x # update_first P f xs)"

fun remove_first :: "('a \<Rightarrow> bool) \<Rightarrow> 'a list \<Rightarrow> 'a list" where
  "remove_first P [] = []"
| "remove_first P (x # xs) = (if P x then xs else x # remove_first P xs)"

subsection \<open>The Request model\<close>

definition Request_Status_enum :: "string list" where
  "Request_Status_enum = [''Pending'', ''Accepted'', ''Rejected'', ''Modified'']"

definition DeliveryMethod_enum :: "string list" where
  "DeliveryMethod_enum = [''In-person'', ''Shipping'']"

text \<open>The object handed to \<open>new Request({...})\<close>: every schema path may be unset.\<close>

record request_args =
  a_RequestedBy :: "string option"
  a_RequestedTo :: "string option"
  a_BookID :: "string option"
  a_RequestDate :: "date option"
  a_Status :: "string option"
  a_DeliveryMethod :: "string option"
  a_Duration :: "real option"
  a_NegotiatedTerms :: "string option"

text \<open>
  A document under construction: the constructor has drawn \<open>_id\<close> and the default of
  \<open>RequestID\<close> from the generator; nothing has been validated yet.
\<close>

record request_doc =
  d_id :: oid
  d_RequestID :: oid
  d_args :: request_args

definition new_Request :: "request_args \<Rightarrow> store \<Rightarrow> request_doc \<times> store" where
  "new_Request a st =
     (\<lparr>d_id = oid_counter st, d_RequestID = oid_counter st + 1, d_args = a\<rparr>,
      st\<lparr>oid_counter := oid_counter st + 2\<rparr>)"

definition Request_validate :: "request_args \<Rightarrow> bool" where
  "Request_validate a \<longleftrightarrow>
     required_String (a_RequestedBy a) \<and>
     required_String (a_RequestedTo a) \<and>
     required_String (a_BookID a) \<and>
     enum_validator Request_Status_enum (Some (with_default ''Pending'' (a_Status a))) \<and>
     required_String (a_DeliveryMethod a) \<and>
     enum_validator DeliveryMethod_enum (a_DeliveryMethod a) \<and>
     required_value (a_Duration a)"

text \<open>
  \<open>doc.save()\<close>: validate, then insert. \<open>timestamps: true\<close> stamps \<open>createdAt\<close> and
  \<open>updatedAt\<close>. A document that passed the validators has every required path set;
  the last case is not reached then.
\<close>

definition Request_save :: "request_doc \<Rightarrow> date \<Rightarrow> store \<Rightarrow> error + (request \<times> store)" where
  "Request_save d now st =
     (let a = d_args d in
      if \<not> Request_validate a then Inl ValidationError
      else
        (case (a_RequestedBy a, a_RequestedTo a, a_BookID a, a_DeliveryMethod a, a_Duration a) of
           (Some rby, Some rto, Some book, Some dm, Some dur) \<Rightarrow>
             let r = \<lparr>r_id = d_id d,
                      r_RequestID = d_RequestID d,
                      r_RequestedBy = rby,
                      r_RequestedTo = rto,
                      r_BookID = book,
                      r_RequestDate = with_default now (a_RequestDate a),
                      r_Status = with_default ''Pending'' (a_Status a),
                      r_DeliveryMethod = dm,
                      r_Duration = dur,
                      r_NegotiatedTerms = with_default [] (a_NegotiatedTerms a),
                      r_createdAt = now,
                      r_updatedAt = now\<rparr>
             in Inr (r, st\<lparr>requests := requests st @ [r]\<rparr>)
         | _ \<Rightarrow> Inl ValidationError))"

text \<open>
  \<open>Request.findByIdAndUpdate(requestId, {Status: status}, {new: true})\<close>: the id is cast,
  no validator runs, the first match gets the new status and a new \<open>updatedAt\<close>, and the
  document is returned as it is after the update (\<open>None\<close> for no match).
\<close>

definition Request_findByIdAndUpdate ::
  "string \<Rightarrow> string \<Rightarrow> date \<Rightarrow> store \<Rightarrow> error + (request option \<times> store)" where
  "Request_findByIdAndUpdate ident status now st =
     (case castObjectId ident of
        None \<Rightarrow> Inl CastError
      | Some i \<Rightarrow>
          (case find (\<lambda>r. r_id r = i) (requests st) of
             None \<Rightarrow> Inr (None, st)
           | Some r \<Rightarrow>
               let upd = (\<lambda>r. r\<lparr>r_Status := status, r_updatedAt := now\<rparr>)
               in Inr (Some (upd r),
                       st\<lparr>requests := update_first (\<lambda>r. r_id r = i) upd (requests st)\<rparr>)))"

definition Request_findById :: "string \<Rightarrow> store \<Rightarrow> error + request option" where
  "Request_findById ident st =
     (case castObjectId ident of
        None \<Rightarrow> Inl CastError
      | Some i \<Rightarrow> Inr (find (\<lambda>r. r_id r = i) (requests st)))"

definition Request_findByIdAndDelete :: "string \<Rightarrow> store \<Rightarrow> error + (request option \<times> store)" where
  "Request_findByIdAndDelete ident st =
     (case castObjectId ident of
        None \<Rightarrow> Inl CastError
      | Some i \<Rightarrow>
          (case find (\<lambda>r. r_id r = i) (requests st) of
             None \<Rightarrow> Inr (None, st)
           | Some r \<Rightarrow>
               Inr (Some r, st\<lparr>requests := remove_first (\<lambda>r. r_id r = i) (requests st)\<rparr>)))"

text \<open>Query filters, as far as the routers use them: equality on a path, and \<open>$or\<close>.\<close>

datatype request_filter =
    RequestedBy_is string
  | RequestedTo_is string
  | Or "request_filter list"

fun matches :: "request_filter \<Rightarrow> request \<Rightarrow> bool" where
  "matches (RequestedBy_is u) r = (r_RequestedBy r = u)"
| "matches (RequestedTo_is u) r = (r_RequestedTo r = u)"
| "matches (Or fs) r = list_ex (\<lambda>f. matches f r) fs"

definition Request_find :: "request_filter \<Rightarrow> store \<Rightarrow> request list" where
  "Request_find f st = filter (matches f) (requests st)"

subsection \<open>The Transaction model\<close>

definition Transaction_Status_enum :: "string list" where
  "Transaction_Status_enum =
     [''Pending'', ''In Progress'', ''Shipping'', ''Delivered'', ''Cancelled'']"

text \<open>
  The object handed to \<open>new Transaction({...})\<close>. \<open>RequestID\<close> arrives as a string and
  is cast by the schema. \<open>ExchangeRequestID\<close> is a key the transaction router passes; the
  schema has no such path.
\<close>

record transaction_args =
  ta_RequestID :: "string option"
  ta_OwnerID :: "string option"
  ta_BooKID :: "string option"
  ta_Status :: "string option"
  ta_TransactionDate :: "date option"
  ta_BookReturnedDate :: "date option"
  ta_ExchangeRequestID :: "string option"

record transaction_doc =
  td_id :: oid
  td_TransactionID :: oid
  td_args :: transaction_args

text \<open>
  The constructor draws \<open>_id\<close> and the default of \<open>TransactionID\<close>; in strict mode (the
  default) a key that is not a schema path is dropped.
\<close>

definition new_Transaction :: "transaction_args \<Rightarrow> store \<Rightarrow> transaction_doc \<times> store" where
  "new_Transaction a st =
     (\<lparr>td_id = oid_counter st, td_TransactionID = oid_counter st + 1,
       td_args = a\<lparr>ta_ExchangeRequestID := None\<rparr>\<rparr>,
      st\<lparr>oid_counter := oid_counter st + 2\<rparr>)"

definition cast_ok :: "string option \<Rightarrow> bool" where
  "cast_ok v = (case v of None \<Rightarrow> True | Some s \<Rightarrow> castObjectId s \<noteq> None)"

definition Transaction_validate :: "transaction_args \<Rightarrow> bool" where
  "Transaction_validate a \<longleftrightarrow>
     cast_ok (ta_RequestID a) \<and>
     required_value (ta_RequestID a) \<and>
     required_String (ta_OwnerID a) \<and>
     required_String (ta_BooKID a) \<and>
     required_String (Some (with_default ''Pending'' (ta_Status a))) \<and>
     enum_validator Transaction_Status_enum (Some (with_default ''Pending'' (ta_Status a)))"

definition Transaction_save ::
  "transaction_doc \<Rightarrow> date \<Rightarrow> store \<Rightarrow> error + (transaction \<times> store)" where
  "Transaction_save d now st =
     (let a = td_args d in
      if \<not> Transaction_validate a then Inl ValidationError
      else
        (case (ta_RequestID a, ta_OwnerID a, ta_BooKID a) of
           (Some rid, Some owner, Some book) \<Rightarrow>
             (case castObjectId rid of
                Some i \<Rightarrow>
                  let t = \<lparr>t_id = td_id d,
                           t_TransactionID = td_TransactionID d,
                           t_RequestID = i,
                           t_OwnerID = owner,
                           t_BooKID = book,
                           t_Status = with_default ''Pending'' (ta_Status a),
                           t_TransactionDate = with_default now (ta_TransactionDate a),
                           t_BookReturnedDate = ta_BookReturnedDate a\<rparr>
                  in Inr (t, st\<lparr>transactions := transactions st @ [t]\<rparr>)
              | None \<Rightarrow> Inl ValidationError)
         | _ \<Rightarrow> Inl ValidationError))"

text \<open>
  The body of \<open>PUT /transactions/:id\<close> is handed to \<open>findByIdAndUpdate\<close> as the update:
  a flat object over the schema's paths, each either absent or set.
\<close>

record transaction_update =
  u_RequestID :: "string option"
  u_OwnerID :: "string option"
  u_BooKID :: "string option"
  u_Status :: "string option"
  u_TransactionDate :: "date option"
  u_BookReturnedDate :: "date option"

text \<open>
  Update validators (\<open>runValidators: true\<close>) run on the paths the update sets, and only
  on those: a required String may not be set to the empty string, \<open>Status\<close> must be in
  the enum.
\<close>

definition set_String_ok :: "string option \<Rightarrow> bool" where
  "set_String_ok v = (case v of None \<Rightarrow> True | Some s \<Rightarrow> s \<noteq> [])"

definition Transaction_update_validate :: "transaction_update \<Rightarrow> bool" where
  "Transaction_update_validate u \<longleftrightarrow>
     set_String_ok (u_OwnerID u) \<and>
     set_String_ok (u_BooKID u) \<and>
     set_String_ok (u_Status u) \<and>
     enum_validator Transaction_Status_enum (u_Status u)"

definition apply_update :: "transaction_update \<Rightarrow> transaction \<Rightarrow> transaction" where
  "apply_update u t =
     t\<lparr>t_RequestID :=
         (case u_RequestID u of
            None \<Rightarrow> t_RequestID t
          | Some s \<Rightarrow> (case castObjectId s of None \<Rightarrow> t_RequestID t | Some i \<Rightarrow> i)),
       t_OwnerID := with_default (t_OwnerID t) (u_OwnerID u),
       t_BooKID := with_default (t_BooKID t) (u_BooKID u),
       t_Status := with_default (t_Status t) (u_Status u),
       t_TransactionDate := with_default (t_TransactionDate t) (u_TransactionDate u),
       t_BookReturnedDate :=
         (case u_BookReturnedDate u of None \<Rightarrow> t_BookReturnedDate t | Some d \<Rightarrow> Some d)\<rparr>"

text \<open>
  \<open>Transaction.findByIdAndUpdate(id, update, {new: true, runValidators: true})\<close>: the
  filter and the update are cast, the update validators run, and only then is the
  collection queried.
\<close>

definition Transaction_findByIdAndUpdate ::
  "string \<Rightarrow> transaction_update \<Rightarrow> store \<Rightarrow> error + (transaction option \<times> store)" where
  "Transaction_findByIdAndUpdate ident u st =
     (case castObjectId ident of
        None \<Rightarrow> Inl CastError
      | Some i \<Rightarrow>
          if \<not> cast_ok (u_RequestID u) then Inl CastError
          else if \<not> Transaction_update_validate u then Inl ValidationError
          else
            (case find (\<lambda>t. t_id t = i) (transactions st) of
               None \<Rightarrow> Inr (None, st)
             | Some t \<Rightarrow>
                 Inr (Some (apply_update u t),
                      st\<lparr>transactions :=
                           update_first (\<lambda>t. t_id t = i) (apply_update u) (transactions st)\<rparr>)))"

definition Transaction_findByIdAndDelete ::
  "string \<Rightarrow> store \<Rightarrow> error + (transaction option \<times> store)" where
  "Transaction_findByIdAndDelete ident st =
     (case castObjectId ident of
        None \<Rightarrow> Inl CastError
      | Some i \<Rightarrow>
          (case find (\<lambda>t. t_id t = i) (transactions st) of
             None \<Rightarrow> Inr (None, st)
           | Some t \<Rightarrow>
               Inr (Some t,
                    st\<lparr>transactions := remove_first (\<lambda>t. t_id t = i) (transactions st)\<rparr>)))"

section \<open>The request router\<close>

text \<open>The body of \<open>POST /requests\<close>, as the handler destructures it.\<close>

record request_body =
  b_RequestedBy :: "string option"
  b_BookID :: "string option"
  b_DeliveryMethod :: "string option"
  b_Duration :: "real option"
  b_NegotiatedTerms :: "string option"
  b_RequestedTo :: "string option"

text \<open>
  JavaScript's \<open>!v\<close>: true of \<open>undefined\<close>, \<open>null\<close>, the empty string and the
  number zero.
\<close>

definition falsy_String :: "string option \<Rightarrow> bool" where
  "falsy_String v = (case v of None \<Rightarrow> True | Some s \<Rightarrow> s = [])"

definition falsy_Number :: "real option \<Rightarrow> bool" where
  "falsy_Number v = (case v of None \<Rightarrow> True | Some d \<Rightarrow> d = 0)"

text \<open>\<open>router.post('/')\<close>: create a request.\<close>

definition request_post :: "request_body \<Rightarrow> date \<Rightarrow> store \<Rightarrow> request reply \<times> store" where
  "request_post body now st =
     (if falsy_String (b_RequestedBy body) \<or> falsy_String (b_BookID body) \<or>
         falsy_String (b_DeliveryMethod body) \<or> falsy_Number (b_Duration body)
      then (Err 400 MissingFields, st)
      else
        let (newRequest, st1) =
              new_Request \<lparr>a_RequestedBy = b_RequestedBy body,
                           a_RequestedTo = b_RequestedTo body,
                           a_BookID = b_BookID body,
                           a_RequestDate = Some now,
                           a_Status = Some ''Pending'',
                           a_DeliveryMethod = b_DeliveryMethod body,
                           a_Duration = b_Duration body,
                           a_NegotiatedTerms = b_NegotiatedTerms body\<rparr> st
        in case Request_save newRequest now st1 of
             Inl e \<Rightarrow> (Err 400 e, st1)
           | Inr (savedRequest, st2) \<Rightarrow> (Json 201 savedRequest, st2))"

text \<open>\<open>router.get('/')\<close> and \<open>router.get('/user/:userId')\<close>.\<close>

definition request_get_all :: "store \<Rightarrow> request list reply" where
  "request_get_all st = Json 200 (requests st)"

definition request_get_user :: "string \<Rightarrow> store \<Rightarrow> request list reply" where
  "request_get_user userId st =
     Json 200 (Request_find (Or [RequestedBy_is userId, RequestedTo_is userId]) st)"

text \<open>\<open>router.get('/:id')\<close>.\<close>

definition request_get :: "string \<Rightarrow> store \<Rightarrow> request reply" where
  "request_get ident st =
     (case Request_findById ident st of
        Inl e \<Rightarrow> Err 500 e
      | Inr None \<Rightarrow> Err 404 NotFound
      | Inr (Some r) \<Rightarrow> Json 200 r)"

text \<open>
  \<open>router.put('/:id')\<close>: the status check comes first, then the update, then, for
  \<open>Accepted\<close>, the transaction. A failure of \<open>transaction.save()\<close> is answered 500
  with the request already updated.
\<close>

definition put_Status_values :: "string list" where
  "put_Status_values = [''Pending'', ''Accepted'', ''Rejected'']"

definition includes_Status :: "string option \<Rightarrow> bool" where
  "includes_Status status =
     (case status of None \<Rightarrow> False | Some s \<Rightarrow> s \<in> set put_Status_values)"

definition request_put ::
  "string \<Rightarrow> string option \<Rightarrow> date \<Rightarrow> store \<Rightarrow> request reply \<times> store" where
  "request_put requestId status now st =
     (if \<not> includes_Status status then (Err 400 InvalidStatus, st)
      else
        (case status of
           None \<Rightarrow> (Err 400 InvalidStatus, st)
         | Some s \<Rightarrow>
             (case Request_findByIdAndUpdate requestId s now st of
                Inl e \<Rightarrow> (Err 500 e, st)
              | Inr (None, st1) \<Rightarrow> (Err 404 NotFound, st1)
              | Inr (Some updatedRequest, st1) \<Rightarrow>
                  if s = ''Accepted'' then
                    let (transaction, st2) =
                          new_Transaction \<lparr>ta_RequestID = Some requestId,
                                           ta_OwnerID = Some (r_RequestedTo updatedRequest),
                                           ta_BooKID = Some (r_BookID updatedRequest),
                                           ta_Status = Some ''Pending'',
                                           ta_TransactionDate = Some now,
                                           ta_BookReturnedDate = None,
                                           ta_ExchangeRequestID = None\<rparr> st1
                    in case Transaction_save transaction now st2 of
                         Inl e \<Rightarrow> (Err 500 e, st2)
                       | Inr (t, st3) \<Rightarrow> (Json 200 updatedRequest, st3)
                  else (Json 200 updatedRequest, st1))))"

text \<open>\<open>router.delete('/:id')\<close>.\<close>

definition request_delete :: "string \<Rightarrow> store \<Rightarrow> unit reply \<times> store" where
  "request_delete ident st =
     (case Request_findByIdAndDelete ident st of
        Inl e \<Rightarrow> (Err 500 e, st)
      | Inr (None, st1) \<Rightarrow> (Err 404 NotFound, st1)
      | Inr (Some r, st1) \<Rightarrow> (Json 200 (), st1))"

section \<open>The transaction router\<close>

text \<open>
  The body of \<open>POST /transactions\<close>. The handler destructures \<open>ExchangeRequestID\<close>,
  \<open>Status\<close> and \<open>BookReturnedDate\<close>; a client that follows the schema sends
  \<open>RequestID\<close>, \<open>OwnerID\<close> and \<open>BooKID\<close>, which the handler does not read.
\<close>

record transaction_body =
  tb_ExchangeRequestID :: "string option"
  tb_Status :: "string option"
  tb_BookReturnedDate :: "date option"
  tb_RequestID :: "string option"
  tb_OwnerID :: "string option"
  tb_BooKID :: "string option"

definition transaction_post ::
  "transaction_body \<Rightarrow> date \<Rightarrow> store \<Rightarrow> transaction reply \<times> store" where
  "transaction_post body now st =
     (let (newTransaction, st1) =
            new_Transaction \<lparr>ta_RequestID = None,
                             ta_OwnerID = None,
                             ta_BooKID = None,
                             ta_Status = tb_Status body,
                             ta_TransactionDate = None,
                             ta_BookReturnedDate = tb_BookReturnedDate body,
                             ta_ExchangeRequestID = tb_ExchangeRequestID body\<rparr> st
      in case Transaction_save newTransaction now st1 of
           Inl e \<Rightarrow> (Err 400 e, st1)
         | Inr (savedTransaction, st2) \<Rightarrow> (Json 201 savedTransaction, st2))"

text \<open>\<open>router.put('/:id')\<close>: every error the update throws is answered 400.\<close>

definition transaction_put ::
  "string \<Rightarrow> transaction_update \<Rightarrow> store \<Rightarrow> transaction reply \<times> store" where
  "transaction_put ident body st =
     (case Transaction_findByIdAndUpdate ident body st of
        Inl e \<Rightarrow> (Err 400 e, st)
      | Inr (None, st1) \<Rightarrow> (Err 404 NotFound, st1)
      | Inr (Some updatedTransaction, st1) \<Rightarrow> (Json 200 updatedTransaction, st1))"

definition transaction_delete :: "string \<Rightarrow> store \<Rightarrow> unit reply \<times> store" where
  "transaction_delete ident st =
     (case Transaction_findByIdAndDelete ident st of
        Inl e \<Rightarrow> (Err 500 e, st)
      | Inr (None, st1) \<Rightarrow> (Err 404 NotFound, st1)
      | Inr (Some t, st1) \<Rightarrow> (Json 200 (), st1))"

section \<open>The service as a state machine\<close>

text \<open>
  The operations that can change the store, one per mutating route; the \<open>GET\<close> routes
  return a reply only.
\<close>

datatype operation =
    PostRequest request_body
  | PutRequest string "string option"
  | DeleteRequest string
  | PostTransaction transaction_body
  | PutTransaction string transaction_update
  | DeleteTransaction string

fun exec :: "operation \<Rightarrow> date \<Rightarrow> store \<Rightarrow> store" where
  "exec (PostRequest body) now st = snd (request_post body now st)"
| "exec (PutRequest ident status) now st = snd (request_put ident status now st)"
| "exec (DeleteRequest ident) now st = snd (request_delete ident st)"
| "exec (PostTransaction body) now st = snd (transaction_post body now st)"
| "exec (PutTransaction ident body) now st = snd (transaction_put ident body st)"
| "exec (DeleteTransaction ident) now st = snd (transaction_delete ident st)"

inductive reachable :: "store \<Rightarrow> bool" where
  start: "reachable empty_store"
| step: "reachable st \<Longrightarrow> reachable (exec op now st)"

text \<open>
  An identifier resolves when it casts to the \<open>_id\<close> of a stored request.
\<close>

definition resolves :: "string \<Rightarrow> store \<Rightarrow> bool" where
  "resolves ident st =
     (case Request_findById ident st of Inr (Some r) \<Rightarrow> True | _ \<Rightarrow> False)"

text \<open>An update that sets \<open>Status\<close> and nothing else.\<close>

definition status_update :: "string \<Rightarrow> transaction_update" where
  "status_update s =
     \<lparr>u_RequestID = None, u_OwnerID = None, u_BooKID = None, u_Status = Some s,
      u_TransactionDate = None, u_BookReturnedDate = None\<rparr>"

subsection \<open>Invariant of the request collection\<close>

text \<open>
  What every stored request satisfies: the counterparty and the book are non-empty
  strings (the schema requires them on save, and no route rewrites them), and the status
  is one of the three values the routes write.
\<close>

definition request_inv :: "request \<Rightarrow> bool" where
  "request_inv r \<longleftrightarrow>
     r_RequestedTo r \<noteq> [] \<and> r_BookID r \<noteq> [] \<and> r_Status r \<in> set put_Status_values"

definition store_inv :: "store \<Rightarrow> bool" where
  "store_inv st \<longleftrightarrow> list_all request_inv (requests st)"

text \<open>The schema's enum, as a property of the stored requests.\<close>

definition status_in_enum :: "store \<Rightarrow> bool" where
  "status_in_enum st \<longleftrightarrow>
     list_all (\<lambda>r. r_Status r \<in> set Request_Status_enum) (requests st)"

subsection \<open>A concrete run\<close>

text \<open>
  User \<open>u1\<close> asks \<open>u2\<close> for book \<open>b1\<close> at time 1000; the request is accepted at
  time 2000.
\<close>

definition scenario_body :: request_body where
  "scenario_body =
     \<lparr>b_RequestedBy = Some ''u1'', b_BookID = Some ''b1'',
      b_DeliveryMethod = Some ''In-person'', b_Duration = Some 7,
      b_NegotiatedTerms = None, b_RequestedTo = Some ''u2''\<rparr>"

definition scenario_request :: request where
  "scenario_request =
     \<lparr>r_id = 0, r_RequestID = 1, r_RequestedBy = ''u1'', r_RequestedTo = ''u2'',
      r_BookID = ''b1'', r_RequestDate = 1000, r_Status = ''Pending'',
      r_DeliveryMethod = ''In-person'', r_Duration = 7, r_NegotiatedTerms = [],
      r_createdAt = 1000, r_updatedAt = 1000\<rparr>"

definition scenario_transaction :: transaction where
  "scenario_transaction =
     \<lparr>t_id = 2, t_TransactionID = 3, t_RequestID = 0, t_OwnerID = ''u2'',
      t_BooKID = ''b1'', t_Status = ''Pending'', t_TransactionDate = 2000,
      t_BookReturnedDate = None\<rparr>"

definition scenario_store :: store where
  "scenario_store = exec (PostRequest scenario_body) 1000 empty_store"

definition accepted_store :: store where
  "accepted_store =
     exec (PutRequest ''000000000000000000000000'' (Some ''Accepted'')) 2000 scenario_store"

definition schema_body :: transaction_body where
  "schema_body =
     \<lparr>tb_ExchangeRequestID = Some ''000000000000000000000000'', tb_Status = Some ''Pending'',
      tb_BookReturnedDate = None, tb_RequestID = Some ''000000000000000000000000'',
      tb_OwnerID = Some ''u2'', tb_BooKID = Some ''b1''\<rparr>"

section \<open>Properties\<close>

subsection \<open>What each route does to the request collection\<close>

lemma list_all_update_first:
  "list_all Q xs \<Longrightarrow> (\<And>x. Q x \<Longrightarrow> Q (f x)) \<Longrightarrow> list_all Q (update_first P f xs)"
  by (induction xs) auto

lemma list_all_remove_first:
  "list_all Q xs \<Longrightarrow> list_all Q (remove_first P xs)"
  by (induction xs) auto

lemma find_Some_set: "find P xs = Some x \<Longrightarrow> x \<in> set xs \<and> P x"
  by (induction xs) (auto split: if_splits)

lemma Request_save_Inr:
  "Request_save d now st = Inr (r, st') \<Longrightarrow>
     Request_validate (d_args d) \<and>
     st' = st\<lparr>requests := requests st @ [r]\<rparr> \<and>
     a_RequestedTo (d_args d) = Some (r_RequestedTo r) \<and>
     a_BookID (d_args d) = Some (r_BookID r) \<and>
     r_Status r = with_default ''Pending'' (a_Status (d_args d))"
  by (auto simp: Request_save_def Let_def split: if_splits option.splits)

lemma Transaction_save_requests:
  "Transaction_save d now st = Inr (t, st') \<Longrightarrow> requests st' = requests st"
  by (auto simp: Transaction_save_def Let_def split: if_splits option.splits)

lemma request_post_requests:
  "requests (snd (request_post body now st)) = requests st \<or>
   (\<exists>r. requests (snd (request_post body now st)) = requests st @ [r] \<and>
        r_Status r = ''Pending'' \<and> r_RequestedTo r \<noteq> [] \<and> r_BookID r \<noteq> [])"
  by (auto simp: request_post_def new_Request_def Request_validate_def
      required_String_def with_default_def
      split: sum.splits prod.splits option.splits dest!: Request_save_Inr)

lemma Request_findByIdAndUpdate_requests:
  "Request_findByIdAndUpdate ident s now st = Inr (res, st') \<Longrightarrow>
   requests st' = requests st \<or>
   (\<exists>i. requests st' =
      update_first (\<lambda>r. r_id r = i) (\<lambda>r. r\<lparr>r_Status := s, r_updatedAt := now\<rparr>) (requests st))"
  by (auto simp: Request_findByIdAndUpdate_def split: option.splits)

lemma request_put_requests:
  "requests (snd (request_put ident status now st)) = requests st \<or>
   (\<exists>i s. s \<in> set put_Status_values \<and>
      requests (snd (request_put ident status now st)) =
        update_first (\<lambda>r. r_id r = i) (\<lambda>r. r\<lparr>r_Status := s, r_updatedAt := now\<rparr>) (requests st))"
proof (cases "includes_Status status")
  case False
  then show ?thesis by (simp add: request_put_def)
next
  case True
  then obtain s where s: "status = Some s" "s \<in> set put_Status_values"
    by (auto simp: includes_Status_def split: option.splits)
  show ?thesis
  proof (cases "Request_findByIdAndUpdate ident s now st")
    case (Inl e)
    with True s show ?thesis by (simp add: request_put_def)
  next
    case (Inr p)
    obtain res st1 where p: "p = (res, st1)" by (cases p)
    have eq: "requests (snd (request_put ident status now st)) = requests st1"
      using True s Inr p
      by (auto simp: request_put_def new_Transaction_def
          split: option.splits sum.splits prod.splits dest!: Transaction_save_requests)
    from Request_findByIdAndUpdate_requests[OF Inr[unfolded p]] eq s(2)
    show ?thesis by auto
  qed
qed

lemma request_delete_requests:
  "requests (snd (request_delete ident st)) = requests st \<or>
   (\<exists>i. requests (snd (request_delete ident st)) = remove_first (\<lambda>r. r_id r = i) (requests st))"
  by (auto simp: request_delete_def Request_findByIdAndDelete_def
      split: sum.splits prod.splits option.splits)

lemma transaction_post_requests: "requests (snd (transaction_post body now st)) = requests st"
  by (auto simp: transaction_post_def new_Transaction_def
      split: sum.splits prod.splits dest!: Transaction_save_requests)

lemma transaction_put_requests: "requests (snd (transaction_put ident body st)) = requests st"
  by (auto simp: transaction_put_def Transaction_findByIdAndUpdate_def
      split: sum.splits prod.splits option.splits if_splits)

lemma transaction_delete_requests: "requests (snd (transaction_delete ident st)) = requests st"
  by (auto simp: transaction_delete_def Transaction_findByIdAndDelete_def
      split: sum.splits prod.splits option.splits if_splits)

text \<open>
  A property of single requests holds of the whole collection after any operation, if it
  holds before, holds of a freshly created request, and survives a status update.
\<close>

lemma exec_preserves:
  assumes inv: "list_all Q (requests st)"
    and new: "\<And>r. r_Status r = ''Pending'' \<Longrightarrow> r_RequestedTo r \<noteq> [] \<Longrightarrow> r_BookID r \<noteq> [] \<Longrightarrow> Q r"
    and upd: "\<And>r s. Q r \<Longrightarrow> s \<in> set put_Status_values \<Longrightarrow>
                Q (r\<lparr>r_Status := s, r_updatedAt := now\<rparr>)"
  shows "list_all Q (requests (exec op now st))"
proof (cases op)
  case (PostRequest body)
  with request_post_requests[of body now st] inv new show ?thesis by auto
next
  case (PutRequest ident status)
  with request_put_requests[of ident status now st] inv upd show ?thesis
    by (auto intro!: list_all_update_first)
next
  case (DeleteRequest ident)
  with request_delete_requests[of ident st] inv show ?thesis
    by (auto intro!: list_all_remove_first)
next
  case (PostTransaction body)
  with inv show ?thesis by (simp add: transaction_post_requests)
next
  case (PutTransaction ident body)
  with inv show ?thesis by (simp add: transaction_put_requests)
next
  case (DeleteTransaction ident)
  with inv show ?thesis by (simp add: transaction_delete_requests)
qed

lemma exec_store_inv: "store_inv st \<Longrightarrow> store_inv (exec op now st)"
  unfolding store_inv_def
  by (rule exec_preserves) (auto simp: request_inv_def put_Status_values_def)

lemma reachable_store_inv: "reachable st \<Longrightarrow> store_inv st"
  by (induction rule: reachable.induct)
     (simp_all add: exec_store_inv, simp add: store_inv_def empty_store_def)

lemma exec_status_in_enum: "status_in_enum st \<Longrightarrow> status_in_enum (exec op now st)"
  unfolding status_in_enum_def
  by (rule exec_preserves)
     (auto simp: put_Status_values_def Request_Status_enum_def)

subsection \<open>The concrete run, evaluated\<close>

lemma cast_zero: "castObjectId ''000000000000000000000000'' = Some 0"
  by (simp add: castObjectId_def is_hex_def hex_value_def)

lemma cast_two: "castObjectId ''000000000000000000000002'' = Some 2"
  by (simp add: castObjectId_def is_hex_def hex_value_def)

lemma cast_nine: "castObjectId ''000000000000000000000009'' = Some 9"
  by (simp add: castObjectId_def is_hex_def hex_value_def)

lemma cast_abc: "castObjectId ''abc'' = None"
  by (simp add: castObjectId_def)

lemma scenario_store_eq:
  "scenario_store = \<lparr>requests = [scenario_request], transactions = [], oid_counter = 2\<rparr>"
  by (simp add: scenario_store_def scenario_body_def scenario_request_def empty_store_def
      request_post_def falsy_String_def falsy_Number_def new_Request_def Request_save_def
      Request_validate_def required_String_def required_value_def enum_validator_def
      with_default_def Request_Status_enum_def DeliveryMethod_enum_def Let_def)

lemma scenario_reachable: "reachable scenario_store"
  unfolding scenario_store_def by (rule reachable.step[OF reachable.start])

lemma accepted_reachable: "reachable accepted_store"
  unfolding accepted_store_def by (rule reachable.step[OF scenario_reachable])

lemma accepted_store_eq:
  "accepted_store =
     \<lparr>requests = [scenario_request\<lparr>r_Status := ''Accepted'', r_updatedAt := 2000\<rparr>],
      transactions = [scenario_transaction], oid_counter = 4\<rparr>"
  by (simp add: accepted_store_def scenario_store_eq scenario_request_def
      scenario_transaction_def request_put_def includes_Status_def put_Status_values_def
      Request_findByIdAndUpdate_def cast_zero new_Transaction_def Transaction_save_def
      Transaction_validate_def cast_ok_def required_value_def required_String_def
      with_default_def enum_validator_def Transaction_Status_enum_def Let_def)

section \<open>The claims\<close>

subsection \<open>Accepting a request\<close>

text \<open>
  Claim C1. In every reachable store, for every request that exists there, the handler of
  \<open>PUT /requests/:id\<close> with status \<open>Accepted\<close> appends exactly one transaction whose
  \<open>RequestID\<close> is the request's identifier, whose \<open>OwnerID\<close> is the request's
  \<open>RequestedTo\<close>, whose \<open>BooKID\<close> is the request's \<open>BookID\<close> and whose status is
  \<open>Pending\<close>; the reply is 200 with the updated request, not the transaction.
\<close>

theorem accept_creates_transaction:
  assumes "reachable st"
    and "castObjectId requestId = Some i"
    and "find (\<lambda>r. r_id r = i) (requests st) = Some r"
  shows "request_put requestId (Some ''Accepted'') now st =
     (Json 200 (r\<lparr>r_Status := ''Accepted'', r_updatedAt := now\<rparr>),
      st\<lparr>requests := update_first (\<lambda>r. r_id r = i)
                        (\<lambda>r. r\<lparr>r_Status := ''Accepted'', r_updatedAt := now\<rparr>) (requests st),
         transactions := transactions st @
           [\<lparr>t_id = oid_counter st, t_TransactionID = oid_counter st + 1, t_RequestID = i,
             t_OwnerID = r_RequestedTo r, t_BooKID = r_BookID r, t_Status = ''Pending'',
             t_TransactionDate = now, t_BookReturnedDate = None\<rparr>],
         oid_counter := oid_counter st + 2\<rparr>)"
proof -
  have "request_inv r"
    using reachable_store_inv[OF assms(1)] find_Some_set[OF assms(3)]
    by (simp add: store_inv_def list_all_iff)
  then have ne: "r_RequestedTo r \<noteq> []" "r_BookID r \<noteq> []"
    by (simp_all add: request_inv_def)
  show ?thesis
    using assms(2,3) ne
    by (simp add: request_put_def includes_Status_def put_Status_values_def
        Request_findByIdAndUpdate_def new_Transaction_def Transaction_save_def
        Transaction_validate_def cast_ok_def required_value_def required_String_def
        with_default_def enum_validator_def Transaction_Status_enum_def Let_def)
qed

theorem accept_creates_transaction_witness:
  "reachable scenario_store \<and>
   castObjectId ''000000000000000000000000'' = Some 0 \<and>
   find (\<lambda>r. r_id r = 0) (requests scenario_store) = Some scenario_request \<and>
   request_put ''000000000000000000000000'' (Some ''Accepted'') 2000 scenario_store =
     (Json 200 (scenario_request\<lparr>r_Status := ''Accepted'', r_updatedAt := 2000\<rparr>),
      \<lparr>requests = [scenario_request\<lparr>r_Status := ''Accepted'', r_updatedAt := 2000\<rparr>],
       transactions = [scenario_transaction], oid_counter = 4\<rparr>)"
proof -
  have f: "find (\<lambda>r. r_id r = 0) (requests scenario_store) = Some scenario_request"
    by (simp add: scenario_store_eq scenario_request_def)
  show ?thesis
    using accept_creates_transaction[OF scenario_reachable cast_zero f, of 2000]
      f scenario_reachable cast_zero
    by (simp add: scenario_store_eq scenario_request_def scenario_transaction_def)
qed

subsection \<open>Creating a transaction\<close>

text \<open>
  The handler of \<open>POST /transactions\<close> never passes \<open>RequestID\<close>, \<open>OwnerID\<close> or
  \<open>BooKID\<close> to the model, so the schema's required validators reject every body.
\<close>

lemma transaction_post_rejects:
  "transaction_post body now st =
     (Err 400 ValidationError, st\<lparr>oid_counter := oid_counter st + 2\<rparr>)"
  by (simp add: transaction_post_def new_Transaction_def Transaction_save_def
      Transaction_validate_def required_value_def)

text \<open>\<open>save()\<close> stores a transaction exactly when the schema validators accept it.\<close>

lemma Transaction_save_succeeds_iff:
  "(\<exists>t st'. Transaction_save d now st = Inr (t, st')) \<longleftrightarrow> Transaction_validate (td_args d)"
  by (auto simp: Transaction_save_def Transaction_validate_def Let_def cast_ok_def
      required_value_def required_String_def split: option.splits)

text \<open>
  Claim C2. Transaction creation fails with a validation error exactly when the request
  reference, the owner or the book is missing, and stores the record otherwise; the route
  and the acceptance of a request validate alike. Both paths do run the same schema
  validators, but the route answers 400 to a body in which all three fields are present
  and pass those validators: evaluated here on such a body.
\<close>

theorem transaction_post_rejects_schema_body:
  "transaction_post schema_body 3000 scenario_store =
     (Err 400 ValidationError, scenario_store\<lparr>oid_counter := 4\<rparr>) \<and>
   Transaction_validate
     \<lparr>ta_RequestID = tb_RequestID schema_body, ta_OwnerID = tb_OwnerID schema_body,
      ta_BooKID = tb_BooKID schema_body, ta_Status = tb_Status schema_body,
      ta_TransactionDate = None, ta_BookReturnedDate = tb_BookReturnedDate schema_body,
      ta_ExchangeRequestID = None\<rparr>"
  by (simp add: transaction_post_rejects scenario_store_eq schema_body_def
      Transaction_validate_def cast_ok_def cast_zero required_value_def required_String_def
      with_default_def enum_validator_def Transaction_Status_enum_def)

subsection \<open>Updating the status of a request\<close>

text \<open>
  Claim C3. For every identifier and every status outside \<open>Pending\<close>, \<open>Accepted\<close>,
  \<open>Rejected\<close> (an absent status included), \<open>PUT /requests/:id\<close> answers 400 and the
  store is left as it was.
\<close>

theorem invalid_status_rejected:
  "status \<notin> {Some ''Pending'', Some ''Accepted'', Some ''Rejected''} \<Longrightarrow>
   request_put requestId status now st = (Err 400 InvalidStatus, st)"
  by (auto simp: request_put_def includes_Status_def put_Status_values_def
      split: option.splits)

theorem invalid_status_rejected_witness:
  "Some ''Bogus'' \<notin> {Some ''Pending'', Some ''Accepted'', Some ''Rejected''} \<and>
   request_put ''000000000000000000000000'' (Some ''Bogus'') 3000 scenario_store =
     (Err 400 InvalidStatus, scenario_store) \<and>
   request_get ''000000000000000000000000'' scenario_store = Json 200 scenario_request"
proof -
  have h: "Some ''Bogus'' \<notin> {Some ''Pending'', Some ''Accepted'', Some ''Rejected''}"
    by simp
  show ?thesis
    using invalid_status_rejected[OF h, of "''000000000000000000000000''" 3000 scenario_store] h
    by (simp add: request_get_def Request_findById_def cast_zero scenario_store_eq
        scenario_request_def)
qed

text \<open>
  Claim C10. The status is checked before the identifier is looked up: for an identifier
  that does not resolve, a status outside the three values is answered 400, and a 404 is
  answered only when the status is one of the three. (With such a status, an identifier
  that casts to an ObjectId is answered 404.)
\<close>

theorem status_checked_before_lookup:
  assumes "\<not> resolves requestId st"
  shows "(status \<notin> {Some ''Pending'', Some ''Accepted'', Some ''Rejected''} \<longrightarrow>
            request_put requestId status now st = (Err 400 InvalidStatus, st)) \<and>
         (fst (request_put requestId status now st) = Err 404 NotFound \<longrightarrow>
            status \<in> {Some ''Pending'', Some ''Accepted'', Some ''Rejected''}) \<and>
         (status \<in> {Some ''Pending'', Some ''Accepted'', Some ''Rejected''} \<and>
          castObjectId requestId \<noteq> None \<longrightarrow>
            request_put requestId status now st = (Err 404 NotFound, st))"
  using assms
  by (auto simp: request_put_def includes_Status_def put_Status_values_def resolves_def
      Request_findById_def Request_findByIdAndUpdate_def split: option.splits)

theorem status_checked_before_lookup_witness:
  "\<not> resolves ''000000000000000000000009'' scenario_store \<and>
   request_put ''000000000000000000000009'' (Some ''Bogus'') 3000 scenario_store =
     (Err 400 InvalidStatus, scenario_store) \<and>
   request_put ''000000000000000000000009'' (Some ''Accepted'') 3000 scenario_store =
     (Err 404 NotFound, scenario_store)"
proof -
  have h: "\<not> resolves ''000000000000000000000009'' scenario_store"
    by (simp add: resolves_def Request_findById_def cast_nine scenario_store_eq
        scenario_request_def)
  show ?thesis
    using status_checked_before_lookup[OF h, of "Some ''Bogus''" 3000]
      status_checked_before_lookup[OF h, of "Some ''Accepted''" 3000] h
    by (simp add: cast_nine)
qed

subsection \<open>Creating a request\<close>

text \<open>
  Claim C4, as amended. When \<open>RequestedBy\<close>, \<open>BookID\<close>, \<open>DeliveryMethod\<close>,
  \<open>Duration\<close> and also \<open>RequestedTo\<close> are present and valid (non-empty strings, a
  delivery method of the enum, a duration other than zero), \<open>POST /requests\<close> answers 201
  with the stored record: status \<open>Pending\<close>, an identifier drawn from the generator
  (24 hexadecimal digits when printed), request date and creation time set to the clock
  reading. When one of the first four is absent it answers 400 and stores nothing.
\<close>

theorem request_post_creates_pending:
  "(b_RequestedBy body = Some rby \<and> rby \<noteq> [] \<and>
    b_BookID body = Some book \<and> book \<noteq> [] \<and>
    b_DeliveryMethod body = Some dm \<and> dm \<in> set DeliveryMethod_enum \<and>
    b_Duration body = Some dur \<and> dur \<noteq> 0 \<and>
    b_RequestedTo body = Some rto \<and> rto \<noteq> [] \<longrightarrow>
    (\<exists>r st'. request_post body now st = (Json 201 r, st') \<and>
       requests st' = requests st @ [r] \<and>
       r_Status r = ''Pending'' \<and>
       r_id r = oid_counter st \<and> length (toHexString (r_id r)) = 24 \<and>
       r_RequestDate r = now \<and> r_createdAt r = now \<and>
       r_RequestedBy r = rby \<and> r_RequestedTo r = rto \<and> r_BookID r = book \<and>
       r_DeliveryMethod r = dm \<and> r_Duration r = dur)) \<and>
   (b_RequestedBy body = None \<or> b_BookID body = None \<or>
    b_DeliveryMethod body = None \<or> b_Duration body = None \<longrightarrow>
    request_post body now st = (Err 400 MissingFields, st))"
  by (auto simp: request_post_def falsy_String_def falsy_Number_def new_Request_def
      Request_save_def Request_validate_def required_String_def required_value_def
      enum_validator_def with_default_def Request_Status_enum_def DeliveryMethod_enum_def
      Let_def toHexString_def)

text \<open>
  The claim as first stated fails: the four fields present and valid, no \<open>RequestedTo\<close>.
\<close>

theorem request_post_four_fields_counterexample:
  "request_post
     \<lparr>b_RequestedBy = Some ''u1'', b_BookID = Some ''b1'',
      b_DeliveryMethod = Some ''In-person'', b_Duration = Some 7,
      b_NegotiatedTerms = None, b_RequestedTo = None\<rparr> 1000 empty_store =
   (Err 400 ValidationError, empty_store\<lparr>oid_counter := 2\<rparr>)"
  by (simp add: request_post_def falsy_String_def falsy_Number_def new_Request_def
      Request_save_def Request_validate_def required_String_def Let_def empty_store_def)

theorem request_post_creates_pending_witness:
  "request_post scenario_body 1000 empty_store =
     (Json 201 scenario_request,
      \<lparr>requests = [scenario_request], transactions = [], oid_counter = 2\<rparr>) \<and>
   toHexString (r_id scenario_request) = ''000000000000000000000000'' \<and>
   request_post (scenario_body\<lparr>b_Duration := None\<rparr>) 1000 empty_store =
     (Err 400 MissingFields, empty_store)"
proof -
  have a: "request_post (scenario_body\<lparr>b_Duration := None\<rparr>) 1000 empty_store =
     (Err 400 MissingFields, empty_store)"
    using request_post_creates_pending
      [where body = "scenario_body\<lparr>b_Duration := None\<rparr>" and now = 1000 and st = empty_store]
    by simp
  have "\<exists>r st'. request_post scenario_body 1000 empty_store = (Json 201 r, st') \<and>
       requests st' = requests empty_store @ [r] \<and>
       r_Status r = ''Pending'' \<and>
       r_id r = oid_counter empty_store \<and> length (toHexString (r_id r)) = 24"
    using request_post_creates_pending
      [of scenario_body "''u1''" "''b1''" "''In-person''" 7 "''u2''" 1000 empty_store]
    by (simp add: scenario_body_def DeliveryMethod_enum_def) blast
  moreover have "exec (PostRequest scenario_body) 1000 empty_store =
      \<lparr>requests = [scenario_request], transactions = [], oid_counter = 2\<rparr>"
    using scenario_store_eq by (simp add: scenario_store_def)
  moreover have "toHexString (r_id scenario_request) = ''000000000000000000000000''"
    by (simp add: scenario_request_def toHexString_def hex_digit_def upt_rec)
  ultimately show ?thesis using a
    by (auto simp: empty_store_def)
qed

text \<open>
  Claim C5, as amended. \<open>RequestedTo\<close> is required by the schema: a body without it
  (or with the empty string) is answered 400, by the handler's own check when one of
  the four other fields is falsy and by the schema's validator otherwise, and no request
  is stored.
\<close>

theorem counterparty_required:
  "b_RequestedTo body = None \<or> b_RequestedTo body = Some [] \<Longrightarrow>
   fst (request_post body now st) =
     Err 400 (if falsy_String (b_RequestedBy body) \<or> falsy_String (b_BookID body) \<or>
                 falsy_String (b_DeliveryMethod body) \<or> falsy_Number (b_Duration body)
              then MissingFields else ValidationError) \<and>
   requests (snd (request_post body now st)) = requests st"
  by (auto simp: request_post_def new_Request_def Request_save_def Request_validate_def
      required_String_def Let_def)

text \<open>The claim as first stated fails: the counterparty omitted, everything else valid.\<close>

theorem counterparty_optional_counterexample:
  "fst (request_post
     \<lparr>b_RequestedBy = Some ''u3'', b_BookID = Some ''b2'',
      b_DeliveryMethod = Some ''Shipping'', b_Duration = Some 14,
      b_NegotiatedTerms = Some ''by post'', b_RequestedTo = None\<rparr> 1500 scenario_store) =
   Err 400 ValidationError"
  by (simp add: request_post_def falsy_String_def falsy_Number_def new_Request_def
      Request_save_def Request_validate_def required_String_def Let_def)

theorem counterparty_required_witness:
  "b_RequestedTo (scenario_body\<lparr>b_RequestedTo := None\<rparr>) = None \<and>
   fst (request_post (scenario_body\<lparr>b_RequestedTo := None\<rparr>) 1500 scenario_store) =
     Err 400 ValidationError \<and>
   requests (snd (request_post (scenario_body\<lparr>b_RequestedTo := None\<rparr>) 1500 scenario_store)) =
     [scenario_request]"
  using counterparty_required[of "scenario_body\<lparr>b_RequestedTo := None\<rparr>" 1500 scenario_store]
  by (simp add: scenario_body_def falsy_String_def falsy_Number_def scenario_store_eq)

text \<open>
  Claim C9. A \<open>Duration\<close> that is present and equal to the number 0 is answered 400 by
  the handler's required-field check, which tests falsiness; so is an empty string for
  \<open>RequestedBy\<close>, \<open>BookID\<close> or \<open>DeliveryMethod\<close>. The store is left as it was.
\<close>

theorem falsy_fields_rejected:
  "b_Duration body = Some 0 \<or> b_RequestedBy body = Some [] \<or> b_BookID body = Some [] \<or>
   b_DeliveryMethod body = Some [] \<Longrightarrow>
   request_post body now st = (Err 400 MissingFields, st)"
  by (auto simp: request_post_def falsy_String_def falsy_Number_def)

theorem falsy_fields_rejected_witness:
  "b_Duration (scenario_body\<lparr>b_Duration := Some 0\<rparr>) = Some 0 \<and>
   request_post (scenario_body\<lparr>b_Duration := Some 0\<rparr>) 1000 empty_store =
     (Err 400 MissingFields, empty_store) \<and>
   request_post (scenario_body\<lparr>b_BookID := Some []\<rparr>) 1000 empty_store =
     (Err 400 MissingFields, empty_store)"
  using falsy_fields_rejected[of "scenario_body\<lparr>b_Duration := Some 0\<rparr>" 1000 empty_store]
    falsy_fields_rejected[of "scenario_body\<lparr>b_BookID := Some []\<rparr>" 1000 empty_store]
  by simp

subsection \<open>Listing the requests of a user\<close>

text \<open>
  Claim C6. For every user and every store, \<open>GET /requests/user/:userId\<close> answers 200
  with exactly the requests whose \<open>RequestedBy\<close> or \<open>RequestedTo\<close> is that user.
\<close>

theorem request_get_user_exact:
  "\<exists>rs. request_get_user u st = Json 200 rs \<and>
        set rs = {r \<in> set (requests st). r_RequestedBy r = u \<or> r_RequestedTo r = u}"
  by (auto simp: request_get_user_def Request_find_def)

theorem request_get_user_exact_witness:
  "request_get_user ''u2'' scenario_store = Json 200 [scenario_request] \<and>
   request_get_user ''u1'' scenario_store = Json 200 [scenario_request] \<and>
   request_get_user ''u3'' scenario_store = Json 200 []"
  using request_get_user_exact[of "''u2''" scenario_store]
  by (simp add: request_get_user_def Request_find_def scenario_store_eq scenario_request_def)

subsection \<open>Updating a transaction\<close>

text \<open>
  Claim C7, as amended. For an identifier that casts to an ObjectId and an update that
  passes the casts and the update validators, \<open>PUT /transactions/:id\<close> answers 404 when
  no transaction has the identifier, and otherwise 200 with the transaction in which
  exactly the supplied fields are replaced. A status outside the five enumerated values
  is answered 400 whether or not the transaction exists; so is an identifier that does
  not cast. Any of the five values is accepted as the new status, whatever the old one.
\<close>

theorem transaction_put_partial_update:
  "(castObjectId ident = Some i \<and> cast_ok (u_RequestID u) \<and> Transaction_update_validate u \<longrightarrow>
      (case find (\<lambda>t. t_id t = i) (transactions st) of
         None \<Rightarrow> transaction_put ident u st = (Err 404 NotFound, st)
       | Some t \<Rightarrow>
           transaction_put ident u st =
             (Json 200 (apply_update u t),
              st\<lparr>transactions :=
                   update_first (\<lambda>t. t_id t = i) (apply_update u) (transactions st)\<rparr>) \<and>
           t_id (apply_update u t) = t_id t \<and>
           t_Status (apply_update u t) =
             (case u_Status u of None \<Rightarrow> t_Status t | Some s \<Rightarrow> s) \<and>
           t_BookReturnedDate (apply_update u t) =
             (case u_BookReturnedDate u of None \<Rightarrow> t_BookReturnedDate t | Some d \<Rightarrow> Some d) \<and>
           t_OwnerID (apply_update u t) =
             (case u_OwnerID u of None \<Rightarrow> t_OwnerID t | Some s \<Rightarrow> s) \<and>
           t_BooKID (apply_update u t) =
             (case u_BooKID u of None \<Rightarrow> t_BooKID t | Some s \<Rightarrow> s))) \<and>
   (u_Status u = Some s \<and> s \<notin> set Transaction_Status_enum \<longrightarrow>
      (\<exists>e. transaction_put ident u st = (Err 400 e, st))) \<and>
   (castObjectId ident = None \<longrightarrow> transaction_put ident u st = (Err 400 CastError, st)) \<and>
   (castObjectId ident = Some i \<and> find (\<lambda>t. t_id t = i) (transactions st) = Some t \<and>
    s' \<in> set Transaction_Status_enum \<longrightarrow>
      fst (transaction_put ident (status_update s') st) = Json 200 (t\<lparr>t_Status := s'\<rparr>))"
  by (auto simp: transaction_put_def Transaction_findByIdAndUpdate_def apply_update_def
      with_default_def Transaction_update_validate_def enum_validator_def set_String_ok_def
      status_update_def cast_ok_def Transaction_Status_enum_def
      split: option.splits)

text \<open>
  The claim as first stated fails: no transaction has the identifier \<open>abc\<close>, and the
  answer is 400, not 404.
\<close>

theorem transaction_put_not_found_counterexample:
  "map t_id (transactions accepted_store) = [2] \<and>
   castObjectId ''abc'' = None \<and>
   transaction_put ''abc'' (status_update ''Delivered'') accepted_store =
     (Err 400 CastError, accepted_store)"
  by (simp add: accepted_store_eq scenario_transaction_def transaction_put_def
      Transaction_findByIdAndUpdate_def cast_abc)

theorem transaction_put_partial_update_witness:
  "transaction_put ''000000000000000000000002'' (status_update ''Delivered'') accepted_store =
     (Json 200 (scenario_transaction\<lparr>t_Status := ''Delivered''\<rparr>),
      accepted_store\<lparr>transactions := [scenario_transaction\<lparr>t_Status := ''Delivered''\<rparr>]\<rparr>) \<and>
   transaction_put ''000000000000000000000009'' (status_update ''Delivered'') accepted_store =
     (Err 404 NotFound, accepted_store) \<and>
   (\<exists>e. transaction_put ''000000000000000000000002'' (status_update ''Completed'') accepted_store =
     (Err 400 e, accepted_store))"
proof -
  have v: "cast_ok (u_RequestID (status_update ''Delivered'')) \<and>
           Transaction_update_validate (status_update ''Delivered'')"
    by (simp add: status_update_def cast_ok_def Transaction_update_validate_def
        set_String_ok_def enum_validator_def Transaction_Status_enum_def)
  have f2: "find (\<lambda>t. t_id t = 2) (transactions accepted_store) = Some scenario_transaction"
    by (simp add: accepted_store_eq scenario_transaction_def)
  have f9: "find (\<lambda>t. t_id t = 9) (transactions accepted_store) = None"
    by (simp add: accepted_store_eq scenario_transaction_def)
  have a: "transaction_put ''000000000000000000000002'' (status_update ''Delivered'')
             accepted_store =
     (Json 200 (scenario_transaction\<lparr>t_Status := ''Delivered''\<rparr>),
      accepted_store\<lparr>transactions := [scenario_transaction\<lparr>t_Status := ''Delivered''\<rparr>]\<rparr>)"
    using transaction_put_partial_update
      [where ident = "''000000000000000000000002''" and i = 2
         and u = "status_update ''Delivered''" and st = accepted_store]
      v cast_two f2
    by (simp add: accepted_store_eq apply_update_def status_update_def with_default_def
        scenario_transaction_def)
  have b: "transaction_put ''000000000000000000000009'' (status_update ''Delivered'')
             accepted_store =
     (Err 404 NotFound, accepted_store)"
    using transaction_put_partial_update
      [where ident = "''000000000000000000000009''" and i = 9
         and u = "status_update ''Delivered''" and st = accepted_store]
      v cast_nine f9
    by simp
  have c: "\<exists>e. transaction_put ''000000000000000000000002'' (status_update ''Completed'')
             accepted_store = (Err 400 e, accepted_store)"
    using transaction_put_partial_update
      [where ident = "''000000000000000000000002''" and u = "status_update ''Completed''"
         and s = "''Completed''" and st = accepted_store]
    by (simp add: status_update_def Transaction_Status_enum_def)
  show ?thesis using a b c by simp
qed

subsection \<open>The status of stored requests\<close>

text \<open>
  Claim C8. In every reachable store the status of every stored request is one of the
  four values of the schema's enum: creation writes \<open>Pending\<close>, the status update
  writes one of \<open>Pending\<close>, \<open>Accepted\<close>, \<open>Rejected\<close>, and no other operation writes
  a status (lemma \<open>exec_status_in_enum\<close>: every operation preserves the property).
\<close>

theorem reachable_status_in_enum:
  "reachable st \<Longrightarrow> \<forall>r \<in> set (requests st). r_Status r \<in> set Request_Status_enum"
proof -
  assume "reachable st"
  then have "status_in_enum st"
    by (induction rule: reachable.induct)
       (simp_all add: exec_status_in_enum, simp add: status_in_enum_def empty_store_def)
  then show ?thesis by (simp add: status_in_enum_def list_all_iff)
qed

theorem reachable_status_in_enum_witness:
  "reachable accepted_store \<and>
   map r_Status (requests accepted_store) = [''Accepted''] \<and>
   ''Accepted'' \<in> set Request_Status_enum"
proof -
  have "r_Status (scenario_request\<lparr>r_Status := ''Accepted'', r_updatedAt := 2000\<rparr>)
          \<in> set Request_Status_enum"
    using reachable_status_in_enum[OF accepted_reachable]
    by (simp add: accepted_store_eq)
  then show ?thesis
    using accepted_reachable by (simp add: accepted_store_eq)
qed

end
